theory Spec2Isabelle
  imports Main
begin

section \<open>JavaScript values, errors and promise outcomes\<close>

text \<open>
  The exports of a compiled module are JavaScript values. The model keeps the shapes
  the resolver distinguishes: \<open>undefined\<close>, \<open>null\<close>, a function and an object, the last
  two with the list of their own enumerable properties (keys taken as distinct).
\<close>

datatype jsval =
    Undefined
  | Null
  | JsFunction nat "(string \<times> jsval) list"
  | JsObject "(string \<times> jsval) list"

datatype jserror =
    NotReady \<comment> \<open>\<open>new Error('resolve called on state not ready')\<close>\<close>
  | CodeNotString \<comment> \<open>\<open>new Error('code must be a string, not ...')\<close>\<close>
  | TypeError \<comment> \<open>raised by the runtime: a property of \<open>undefined\<close>, a path that is no string\<close>
  | IOError string \<comment> \<open>the error the Output Store passes to the \<open>readFile\<close> callback\<close>
  | Thrown string \<comment> \<open>a value other than \<open>null\<close> and \<open>undefined\<close> that the evaluated code throws\<close>
  | ThrownNullish \<comment> \<open>\<open>null\<close> or \<open>undefined\<close>, thrown by the evaluated code\<close>

datatype outcome = Resolved jsval | Rejected jserror

text \<open>\<open>Object.keys(v)\<close>: the own enumerable keys; a \<open>TypeError\<close> on \<open>undefined\<close> and
  \<open>null\<close>.\<close>

fun object_keys :: "jsval \<Rightarrow> jserror + string list" where
  "object_keys Undefined = Inl TypeError"
| "object_keys Null = Inl TypeError"
| "object_keys (JsFunction _ ps) = Inr (map fst ps)"
| "object_keys (JsObject ps) = Inr (map fst ps)"

text \<open>An array of strings put into a template literal: the elements joined by commas.\<close>

fun join_keys :: "string list \<Rightarrow> string" where
  "join_keys [] = []"
| "join_keys [k] = k"
| "join_keys (k # ks) = k @ '','' @ join_keys ks"

section \<open>The artifact loader (\<open>src/RequireFromString.js\<close>)\<close>

text \<open>
  The module object \<open>m\<close> built by \<open>new Module(filename, module.parent)\<close>, with the two
  fields the loader assigns and the \<open>exports\<close> object the evaluated code fills. A file
  name is \<open>Some f\<close> when it is a string and \<open>None\<close> when it is any other value.
\<close>

record jsmodule =
  mod_id :: "string option"
  mod_filename :: "string option"
  mod_paths :: "string list"
  mod_exports :: jsval

text \<open>The values bound in the \<open>locals\<close> object handed to \<open>vm.runInNewContext\<close>.\<close>

datatype binding =
    BModule jsmodule
  | BExports jsval
  | BPath string
  | BConsole
  | BProcess
  | BRequire

record opts =
  prependPaths :: "string list"
  appendPaths :: "string list"

text \<open>The second argument of \<open>requireFromString\<close>: a string, \<open>undefined\<close>, an object (read
  as the options, in the place of the file name), or any other value, such as a
  function, whose \<open>typeof\<close> is neither \<open>'string'\<close> nor \<open>'object'\<close>.\<close>

datatype farg = FStr string | FUndef | FOpts opts | FOther

text \<open>
  What the loader and the resolver take from Node.js and cannot be read in the
  repository:
  \<^item> the \<open>__dirname\<close> and \<open>__filename\<close> of the file \<open>RequireFromString.js\<close> itself;
  \<^item> \<open>path.dirname\<close> on a string, and what it does with a value that is no string
    (current versions throw a \<open>TypeError\<close>);
  \<^item> \<open>path.resolve\<close> and \<open>Module._nodeModulePaths\<close>;
  \<^item> the evaluator \<open>vm.runInNewContext\<close>: given the code and the locals it yields the
    value of \<open>m.exports\<close> when the evaluation ends, or the exception the code throws;
  \<^item> \<open>inherited v k\<close>, what \<open>v[k]\<close> yields when \<open>k\<close> is not among the listed properties
    of \<open>v\<close>: the member found along the prototype chain (\<open>toString\<close> of
    \<open>Object.prototype\<close>, say) or a property that is not enumerable, and \<open>undefined\<close> when
    there is none;
  \<^item> \<open>inherited_entry k\<close>, the same for the plain object \<open>config.entry\<close> and a name \<open>k\<close>
    that is no entry: \<open>undefined\<close>, unless \<open>Object.prototype\<close> has a member of that
    name.
\<close>

record host =
  loader_dirname :: string
  loader_filename :: string
  path_dirname :: "string \<Rightarrow> string"
  path_dirname_other :: "jserror + string"
  path_resolve :: "string \<Rightarrow> string \<Rightarrow> string"
  nodeModulePaths :: "string \<Rightarrow> string list"
  runInNewContext :: "string \<Rightarrow> (string \<times> binding) list \<Rightarrow> jserror + jsval"
  inherited :: "jsval \<Rightarrow> string \<Rightarrow> jsval"
  inherited_entry :: "string \<Rightarrow> farg"

text \<open>\<open>v[k]\<close>: a \<open>TypeError\<close> on \<open>undefined\<close> and \<open>null\<close>; otherwise the own property of
  that name, and for any other name what the prototype chain gives.\<close>

fun get_prop :: "host \<Rightarrow> jsval \<Rightarrow> string \<Rightarrow> jserror + jsval" where
  "get_prop h Undefined k = Inl TypeError"
| "get_prop h Null k = Inl TypeError"
| "get_prop h (JsFunction n ps) k =
     Inr (case map_of ps k of None \<Rightarrow> inherited h (JsFunction n ps) k | Some v \<Rightarrow> v)"
| "get_prop h (JsObject ps) k =
     Inr (case map_of ps k of None \<Rightarrow> inherited h (JsObject ps) k | Some v \<Rightarrow> v)"

definition new_Module :: "string option \<Rightarrow> jsmodule" where
  "new_Module filename =
     \<lparr>mod_id = filename, mod_filename = None, mod_paths = [], mod_exports = JsObject []\<rparr>"

definition locals :: "host \<Rightarrow> jsmodule \<Rightarrow> (string \<times> binding) list" where
  "locals h m =
     [(''module'', BModule m),
      (''exports'', BExports (mod_exports m)),
      (''__dirname'', BPath (loader_dirname h)),
      (''__filename'', BPath (loader_filename h)),
      (''console'', BConsole),
      (''process'', BProcess),
      (''require'', BRequire)]"

text \<open>
  \<open>requireFromString(code, filename, opts)\<close>. \<open>code\<close> is \<open>Some c\<close> when
  \<open>typeof code === 'string'\<close>. An object in the place of the file name becomes the
  options and leaves the file name \<open>undefined\<close>.
\<close>

definition requireFromString ::
  "host \<Rightarrow> string option \<Rightarrow> farg \<Rightarrow> opts option \<Rightarrow> jserror + jsval" where
  "requireFromString h code filename opts0 =
     (let opts1 = (case filename of FOpts ob \<Rightarrow> Some ob | _ \<Rightarrow> opts0);
          filename1 = (case filename of FStr f \<Rightarrow> Some f | _ \<Rightarrow> None);
          opts2 = (case opts1 of None \<Rightarrow> \<lparr>prependPaths = [], appendPaths = []\<rparr> | Some ob \<Rightarrow> ob)
      in case code of
           None \<Rightarrow> Inl CodeNotString
         | Some c \<Rightarrow>
             (case (case filename1 of
                      None \<Rightarrow> path_dirname_other h
                    | Some f \<Rightarrow> Inr (path_dirname h f)) of
                Inl e \<Rightarrow> Inl e
              | Inr dir \<Rightarrow>
                  (let paths = nodeModulePaths h dir;
                       m = (new_Module filename1)
                             \<lparr>mod_filename := filename1,
                              mod_paths := prependPaths opts2 @ paths @ appendPaths opts2\<rparr>
                   in runInNewContext h c (locals h m))))"

section \<open>The build-state coordinator and the resolver (\<open>src/unnamed/part_000\<close>)\<close>

text \<open>
  A queued continuation is either the closure \<open>doResolve\<close> that \<open>resolveHandler\<close> builds
  (it captures the promise, \<open>funName\<close>, \<open>outputFile\<close> and \<open>srcFile\<close>) or a function a
  caller passed to \<open>resolveWhenReady\<close>, known by its \<open>name\<close> and an identifier.
\<close>

datatype callback =
    DoResolve nat string string farg
  | Fn string nat

fun cb_name :: "callback \<Rightarrow> string" where
  "cb_name (DoResolve _ _ _ _) = ''doResolve''"
| "cb_name (Fn name _) = name"

text \<open>The \<open>stats\<close> object of a \<open>done\<close> event, as far as \<open>readyCallback\<close> reads it.\<close>

record stats =
  compiled_text :: string
  display_text :: string
  hasErrors :: bool
  hasWarnings :: bool

datatype store = MemoryFs | DiskFs

text \<open>
  The module-level variables (\<open>state\<close>, \<open>forceRebuild\<close>, \<open>compilationCallbacks\<close>,
  \<open>libraryTarget\<close>, \<open>outputPath\<close>, \<open>config.entry\<close>, the options read, the files held by
  \<open>memoryFileSystem\<close>), and what the module does to its surroundings: the messages given
  to \<open>log\<close> and \<open>console.error\<close>, the number of calls of \<open>compiler.run\<close> made by
  \<open>rebuild\<close>, the functions given to \<open>process.nextTick\<close> that have not run yet, the
  \<open>readFile\<close> requests to the disk whose callback has not run yet, and the promises
  settled so far.

  An exception is carried in the state: \<open>thrown\<close> holds the exception that is on its way
  up the call stack (\<open>None\<close> when there is none), and \<open>escaped\<close> lists the exceptions
  that have left the module's code at the end of an event, to the event loop or to the
  caller.
\<close>

record coordinator =
  state :: bool
  forceRebuild :: bool
  compilationCallbacks :: "callback list"
  libraryTarget :: string
  outputPath :: string
  entry :: "(string \<times> string) list"
  useMemoryFs :: bool
  quiet :: bool
  stats_enabled :: bool
  logged :: "string list"
  console_error :: "string list"
  runs :: nat
  nextTicks :: "stats list"
  reads :: "(store \<times> string \<times> nat \<times> string \<times> farg) list"
  settled :: "(nat \<times> outcome) list"
  memoryFileSystem :: "(string \<times> string) list"
  thrown :: "jserror option"
  escaped :: "jserror list"

definition CommonJS :: string where
  "CommonJS = ''commonjs''"

definition CommonJS2 :: string where
  "CommonJS2 = ''commonjs2''"

text \<open>The part of \<open>makeConfig\<close> that fixes \<open>libraryTarget\<close> from \<open>config.output.libraryTarget\<close>
  (\<open>None\<close> when the configuration does not set it).\<close>

definition makeConfig_libraryTarget :: "string option \<Rightarrow> string" where
  "makeConfig_libraryTarget t =
     (case t of
        None \<Rightarrow> CommonJS2
      | Some x \<Rightarrow> if x \<in> set [CommonJS, CommonJS2] then x else CommonJS2)"

definition log :: "string \<Rightarrow> coordinator \<Rightarrow> coordinator" where
  "log msg s = s\<lparr>logged := logged s @ [msg]\<rparr>"

definition getOutputFileSystem :: "coordinator \<Rightarrow> store" where
  "getOutputFileSystem s = (if useMemoryFs s then MemoryFs else DiskFs)"

text \<open>A promise takes the first settlement only.\<close>

definition settle :: "nat \<Rightarrow> outcome \<Rightarrow> coordinator \<Rightarrow> coordinator" where
  "settle pid out s =
     (case map_of (settled s) pid of
        None \<Rightarrow> s\<lparr>settled := settled s @ [(pid, out)]\<rparr>
      | Some _ \<Rightarrow> s)"

definition invalidPlugin :: "coordinator \<Rightarrow> coordinator" where
  "invalidPlugin s =
     (let s1 = (if state s then log ''webpack: bundle is now INVALID.'' s else s)
      in s1\<lparr>state := False\<rparr>)"

definition invalidAsyncPlugin :: "coordinator \<Rightarrow> coordinator" where
  "invalidAsyncPlugin s = invalidPlugin (s\<lparr>state := False\<rparr>)"

definition compiler_run :: "coordinator \<Rightarrow> coordinator" where
  "compiler_run s = s\<lparr>runs := Suc (runs s)\<rparr>"

definition rebuild :: "coordinator \<Rightarrow> coordinator" where
  "rebuild s =
     (if state s then compiler_run (s\<lparr>state := False\<rparr>)
      else s\<lparr>forceRebuild := True\<rparr>)"

text \<open>
  The callback that \<open>doResolve\<close> gives to \<open>readFile\<close>; \<open>Inl err\<close> is a call with an error,
  \<open>Inr moduleCode\<close> one with the data. The \<open>catch\<close> block evaluates \<open>e.stack\<close> before it
  calls \<open>reject\<close>: when the value caught is \<open>null\<close> or \<open>undefined\<close> that throws a
  \<open>TypeError\<close>, which leaves the callback, and the promise is not settled.
\<close>

definition readFileCallback ::
  "host \<Rightarrow> string \<Rightarrow> nat \<Rightarrow> string \<Rightarrow> farg \<Rightarrow> jserror + string \<Rightarrow>
   coordinator \<Rightarrow> coordinator" where
  "readFileCallback h outputFile pid funName srcFile res s =
     (case res of
        Inl err \<Rightarrow>
          settle pid (Rejected err)
            (s\<lparr>console_error := console_error s @
                 [''Failed to load output content for '' @ outputFile]\<rparr>)
      | Inr moduleCode \<Rightarrow>
          (let caught = (\<lambda>e t.
                 if e = ThrownNullish then t\<lparr>thrown := Some TypeError\<rparr>
                 else settle pid (Rejected e)
                   (t\<lparr>console_error := console_error t @
                        [''Failed to compile/load webpack output: '' @ outputFile]\<rparr>))
           in case requireFromString h (Some moduleCode) srcFile None of
                Inl e \<Rightarrow> caught e s
              | Inr loadedModule \<Rightarrow>
                  if libraryTarget s = CommonJS then
                    (case object_keys loadedModule of
                       Inl e \<Rightarrow> caught e s
                     | Inr keys \<Rightarrow>
                         (let s1 = log (''CommonJS module: loading '' @ funName @
                                      '' from module with keys '' @ join_keys keys) s
                          in case get_prop h loadedModule funName of
                               Inl e \<Rightarrow> caught e s1
                             | Inr v \<Rightarrow> settle pid (Resolved v) s1))
                  else settle pid (Resolved loadedModule) s))"

text \<open>\<open>readFile\<close> of the in-memory store: it reads the file and calls the callback before
  it returns, with an error when there is no such file.\<close>

definition memory_readFile :: "coordinator \<Rightarrow> string \<Rightarrow> jserror + string" where
  "memory_readFile s file =
     (case map_of (memoryFileSystem s) file of
        None \<Rightarrow> Inl (IOError ''ENOENT'')
      | Some data \<Rightarrow> Inr data)"

text \<open>
  \<open>doResolve\<close>: the state check, then \<open>readFile\<close>. With the in-memory store the callback
  runs inside this call, and an exception that leaves the callback leaves \<open>doResolve\<close>
  too. With the disk the request is pending and its callback is a later event.
\<close>

definition doResolve ::
  "host \<Rightarrow> nat \<Rightarrow> string \<Rightarrow> string \<Rightarrow> farg \<Rightarrow> coordinator \<Rightarrow> coordinator" where
  "doResolve h pid funName outputFile srcFile s =
     (if \<not> state s then settle pid (Rejected NotReady) s
      else
        (let s1 = log (''webpack: resolving now - ready! - '' @ outputFile) s
         in case getOutputFileSystem s1 of
              MemoryFs \<Rightarrow>
                readFileCallback h outputFile pid funName srcFile (memory_readFile s1 outputFile) s1
            | DiskFs \<Rightarrow>
                s1\<lparr>reads := reads s1 @ [(DiskFs, outputFile, pid, funName, srcFile)]\<rparr>))"

text \<open>
  Calling a continuation. What a caller's own function does is not in the repository:
  \<open>call_fn\<close> gives it, for each function identifier, as a state transformer; a function
  that throws leaves its exception in \<open>thrown\<close>.
\<close>

definition invoke ::
  "host \<Rightarrow> (nat \<Rightarrow> coordinator \<Rightarrow> coordinator) \<Rightarrow> callback \<Rightarrow> coordinator \<Rightarrow> coordinator" where
  "invoke h call_fn cb s =
     (case cb of
        DoResolve pid funName outputFile srcFile \<Rightarrow> doResolve h pid funName outputFile srcFile s
      | Fn name f \<Rightarrow> call_fn f s)"

text \<open>
  \<open>cbs.forEach(continueBecauseBundleAvailable)\<close>: the continuations are called in the
  order of the array; an exception from one of them ends the loop. The first component
  lists the continuations called, in the order of the calls.
\<close>

fun forEach ::
  "host \<Rightarrow> (nat \<Rightarrow> coordinator \<Rightarrow> coordinator) \<Rightarrow> callback list \<Rightarrow> coordinator \<Rightarrow>
   callback list \<times> coordinator" where
  "forEach h call_fn [] s = ([], s)"
| "forEach h call_fn (cb # cbs) s =
     (let s1 = invoke h call_fn cb s
      in if thrown s1 = None then
           (let r = forEach h call_fn cbs s1 in (cb # fst r, snd r))
         else ([cb], s1))"

definition resolveWhenReady ::
  "host \<Rightarrow> (nat \<Rightarrow> coordinator \<Rightarrow> coordinator) \<Rightarrow> callback \<Rightarrow> coordinator \<Rightarrow>
   callback list \<times> coordinator" where
  "resolveWhenReady h call_fn fn s =
     (if state s then ([fn], invoke h call_fn fn s)
      else
        (let s1 = log (''webpack: wait until bundle finished: '' @ cb_name fn) s
         in ([], s1\<lparr>compilationCallbacks := compilationCallbacks s1 @ [fn]\<rparr>)))"

definition readyCallback ::
  "host \<Rightarrow> (nat \<Rightarrow> coordinator \<Rightarrow> coordinator) \<Rightarrow> stats \<Rightarrow> coordinator \<Rightarrow>
   callback list \<times> coordinator" where
  "readyCallback h call_fn st s =
     (if \<not> state s then ([], s)
      else
        (let s1 = log (''webpack compiled '' @ compiled_text st) s;
             displayStats = ((\<not> quiet s1 \<and> stats_enabled s1) \<or> hasErrors st \<or> hasWarnings st);
             s2 = (if displayStats then log (display_text st) s1 else s1);
             s3 = log ''webpack: bundle is now VALID.'' s2;
             cbs = compilationCallbacks s3
         in forEach h call_fn cbs (s3\<lparr>compilationCallbacks := []\<rparr>)))"

text \<open>The handler of the compiler's \<open>done\<close> event: \<open>readyCallback\<close> is handed to
  \<open>process.nextTick\<close>, and the rebuild test runs in the handler itself.\<close>

definition done_handler :: "stats \<Rightarrow> coordinator \<Rightarrow> coordinator" where
  "done_handler st s =
     (let s1 = s\<lparr>state := True\<rparr>;
          s2 = s1\<lparr>nextTicks := nextTicks s1 @ [st]\<rparr>
      in if forceRebuild s2 then rebuild (s2\<lparr>forceRebuild := False\<rparr>) else s2)"

text \<open>
  \<open>resolve(funName)\<close>: the body of the function made by \<open>resolveHandler(funName)\<close>, run
  by the promise constructor for the promise \<open>pid\<close>. \<open>config.entry[funName]\<close> is the
  entry of that name and, for a name that is no entry, what the plain object inherits.
  The \<open>catch\<close> around \<open>resolveWhenReady\<close> takes the exception that left \<open>doResolve\<close>; it
  evaluates \<open>err.stack\<close> before it calls \<open>reject\<close>.
\<close>

definition resolveHandler ::
  "host \<Rightarrow> (nat \<Rightarrow> coordinator \<Rightarrow> coordinator) \<Rightarrow> nat \<Rightarrow> string \<Rightarrow> coordinator \<Rightarrow>
   callback list \<times> coordinator" where
  "resolveHandler h call_fn pid funName s =
     (let outputFile = path_resolve h (outputPath s) (funName @ ''.js'');
          srcFile = (case map_of (entry s) funName of
                       None \<Rightarrow> inherited_entry h funName
                     | Some f \<Rightarrow> FStr f);
          s1 = log (''webpack: resolving '' @ funName @ '' with '' @ outputFile) s;
          r = resolveWhenReady h call_fn (DoResolve pid funName outputFile srcFile) s1
      in case thrown (snd r) of
           None \<Rightarrow> r
         | Some err \<Rightarrow>
             (fst r,
              if err = ThrownNullish then (snd r)\<lparr>thrown := Some TypeError\<rparr>
              else settle pid (Rejected err)
                ((snd r)\<lparr>thrown := None,
                          console_error := console_error (snd r) @
                            [''webpack failed to resolve'' @ funName]\<rparr>)))"

section \<open>Events\<close>

text \<open>
  Everything happens on one thread, one event after the other: the compiler's hooks
  (\<open>invalid\<close>, \<open>watch-run\<close>, \<open>run\<close>, \<open>done\<close>), a turn of the \<open>process.nextTick\<close> queue, a
  call of \<open>rebuild\<close>, \<open>resolveWhenReady\<close> or \<open>resolve\<close>, and the callback of the pending
  \<open>readFile\<close> request number \<open>k\<close> (counted from the oldest, \<open>0\<close>) with its result. An
  exception still on its way up when the event ends has left the module: \<open>leave\<close> moves
  it to \<open>escaped\<close>.
\<close>

datatype event =
    EvInvalid
  | EvWatchRun
  | EvRun
  | EvDone stats
  | EvTick
  | EvRebuild
  | EvResolveWhenReady callback
  | EvResolve nat string
  | EvReadFile nat "jserror + string"

definition tick ::
  "host \<Rightarrow> (nat \<Rightarrow> coordinator \<Rightarrow> coordinator) \<Rightarrow> coordinator \<Rightarrow>
   callback list \<times> coordinator" where
  "tick h call_fn s =
     (case nextTicks s of
        [] \<Rightarrow> ([], s)
      | st # rest \<Rightarrow> readyCallback h call_fn st (s\<lparr>nextTicks := rest\<rparr>))"

definition leave :: "coordinator \<Rightarrow> coordinator" where
  "leave s =
     (case thrown s of
        None \<Rightarrow> s
      | Some e \<Rightarrow> s\<lparr>thrown := None, escaped := escaped s @ [e]\<rparr>)"

definition fire ::
  "host \<Rightarrow> (nat \<Rightarrow> coordinator \<Rightarrow> coordinator) \<Rightarrow> event \<Rightarrow> coordinator \<Rightarrow>
   callback list \<times> coordinator" where
  "fire h call_fn e s =
     (let r =
        (case e of
           EvInvalid \<Rightarrow> ([], invalidPlugin s)
         | EvWatchRun \<Rightarrow> ([], invalidAsyncPlugin s)
         | EvRun \<Rightarrow> ([], invalidAsyncPlugin s)
         | EvDone st \<Rightarrow> ([], done_handler st s)
         | EvTick \<Rightarrow> tick h call_fn s
         | EvRebuild \<Rightarrow> ([], rebuild s)
         | EvResolveWhenReady fn \<Rightarrow> resolveWhenReady h call_fn fn s
         | EvResolve pid funName \<Rightarrow> resolveHandler h call_fn pid funName s
         | EvReadFile k res \<Rightarrow>
             (if k < length (reads s) then
                (case reads s ! k of
                   (fs, outputFile, pid, funName, srcFile) \<Rightarrow>
                     ([], readFileCallback h outputFile pid funName srcFile res
                            (s\<lparr>reads := take k (reads s) @ drop (Suc k) (reads s)\<rparr>)))
              else ([], s)))
      in (fst r, leave (snd r)))"

text \<open>A sequence of events; the first component collects the continuations called.\<close>

fun exec ::
  "host \<Rightarrow> (nat \<Rightarrow> coordinator \<Rightarrow> coordinator) \<Rightarrow> event list \<Rightarrow> coordinator \<Rightarrow>
   callback list \<times> coordinator" where
  "exec h call_fn [] s = ([], s)"
| "exec h call_fn (e # es) s =
     (let r1 = fire h call_fn e s; r2 = exec h call_fn es (snd r1)
      in (fst r1 @ fst r2, snd r2))"

fun is_done :: "event \<Rightarrow> bool" where
  "is_done (EvDone _) = True"
| "is_done _ = False"

fun is_rebuild :: "event \<Rightarrow> bool" where
  "is_rebuild EvRebuild = True"
| "is_rebuild _ = False"

fun is_invalidation :: "event \<Rightarrow> bool" where
  "is_invalidation EvInvalid = True"
| "is_invalidation EvWatchRun = True"
| "is_invalidation EvRun = True"
| "is_invalidation _ = False"

fun is_resolve_call :: "event \<Rightarrow> bool" where
  "is_resolve_call (EvResolveWhenReady _) = True"
| "is_resolve_call (EvResolve _ _) = True"
| "is_resolve_call _ = False"

text \<open>The continuation a call of \<open>resolveWhenReady\<close> or \<open>resolve\<close> hands to the coordinator.\<close>

fun queued_by :: "host \<Rightarrow> coordinator \<Rightarrow> event \<Rightarrow> callback list" where
  "queued_by h s (EvResolveWhenReady fn) = [fn]"
| "queued_by h s (EvResolve pid funName) =
     [DoResolve pid funName (path_resolve h (outputPath s) (funName @ ''.js''))
        (case map_of (entry s) funName of None \<Rightarrow> inherited_entry h funName | Some f \<Rightarrow> FStr f)]"
| "queued_by h s _ = []"

text \<open>One step of a drain: the next continuation is called unless an exception has
  ended the loop.\<close>

definition drain_step ::
  "host \<Rightarrow> (nat \<Rightarrow> coordinator \<Rightarrow> coordinator) \<Rightarrow> coordinator \<Rightarrow> callback \<Rightarrow> coordinator" where
  "drain_step h call_fn s cb = (if thrown s = None then invoke h call_fn cb s else s)"

fun is_doResolve :: "callback \<Rightarrow> bool" where
  "is_doResolve (DoResolve _ _ _ _) = True"
| "is_doResolve (Fn _ _) = False"

text \<open>The request that a \<open>doResolve\<close> continuation leaves pending with the disk.\<close>

fun pending_read :: "callback \<Rightarrow> (store \<times> string \<times> nat \<times> string \<times> farg) list" where
  "pending_read (DoResolve pid funName outputFile srcFile) =
     [(DiskFs, outputFile, pid, funName, srcFile)]"
| "pending_read (Fn _ _) = []"

section \<open>A concrete configuration\<close>

text \<open>
  Two entries, \<open>alpha\<close> and \<open>beta\<close>, built into \<open>/target\<close>. In \<open>host0\<close> the loader's file is
  \<open>/app/src/RequireFromString.js\<close>, \<open>path.dirname\<close> cuts a path at its last slash and
  throws a \<open>TypeError\<close> on a value that is no string, and \<open>path.resolve\<close> joins a
  directory and a file name. Every object inherits \<open>toString\<close> and \<open>constructor\<close>.
  The evaluator of \<open>host0\<close> runs four programs: \<open>throw __filename\<close> and
  \<open>throw __dirname\<close> throw the value bound to that name in the scope, \<open>throw null\<close>
  throws \<open>null\<close>, and any other code exports the two handlers.
\<close>

definition host0 :: host where
  "host0 =
     \<lparr>loader_dirname = ''/app/src'',
      loader_filename = ''/app/src/RequireFromString.js'',
      path_dirname = (\<lambda>p. rev (tl (dropWhile (\<lambda>ch. ch \<noteq> CHR ''/'') (rev p)))),
      path_dirname_other = Inl TypeError,
      path_resolve = (\<lambda>d f. d @ ''/'' @ f),
      nodeModulePaths = (\<lambda>d. [d @ ''/node_modules'']),
      runInNewContext = (\<lambda>code l.
         if code = ''throw __filename'' then
           (case map_of l ''__filename'' of Some (BPath p) \<Rightarrow> Inl (Thrown p) | _ \<Rightarrow> Inl TypeError)
         else if code = ''throw __dirname'' then
           (case map_of l ''__dirname'' of Some (BPath p) \<Rightarrow> Inl (Thrown p) | _ \<Rightarrow> Inl TypeError)
         else if code = ''throw null'' then Inl ThrownNullish
         else Inr (JsObject [(''alpha'', JsFunction 1 []), (''beta'', JsFunction 2 [])])),
      inherited = (\<lambda>v k.
         if k = ''toString'' then JsFunction 100 []
         else if k = ''constructor'' then JsFunction 101 []
         else Undefined),
      inherited_entry = (\<lambda>k.
         if k = ''toString'' \<or> k = ''constructor'' then FOther else FUndef)\<rparr>"

text \<open>The state of the module when it is loaded: \<open>state = false\<close>, the first build in
  flight, the in-memory store in use and still empty.\<close>

definition coord0 :: coordinator where
  "coord0 =
     \<lparr>state = False, forceRebuild = False, compilationCallbacks = [],
      libraryTarget = CommonJS, outputPath = ''/target'',
      entry = [(''alpha'', ''/src/a.js''), (''beta'', ''/src/b.js'')],
      useMemoryFs = True, quiet = False, stats_enabled = True,
      logged = [], console_error = [], runs = 0, nextTicks = [], reads = [],
      settled = [], memoryFileSystem = [], thrown = None, escaped = []\<rparr>"

definition coord_valid :: coordinator where
  "coord_valid = coord0\<lparr>state := True\<rparr>"

definition coord_flagged :: coordinator where
  "coord_flagged = coord0\<lparr>forceRebuild := True, compilationCallbacks := [Fn ''waiter'' 0]\<rparr>"

text \<open>The same with the output on the disk, and with the in-memory store holding the
  two bundles.\<close>

definition coord_disk :: coordinator where
  "coord_disk = coord0\<lparr>useMemoryFs := False\<rparr>"

definition coord_built :: coordinator where
  "coord_built =
     coord0\<lparr>state := True,
            memoryFileSystem := [(''/target/alpha.js'', ''code''), (''/target/beta.js'', ''code'')]\<rparr>"

definition stats0 :: stats where
  "stats0 =
     \<lparr>compiled_text = ''ok'', display_text = ''hash'', hasErrors = False, hasWarnings = False\<rparr>"

text \<open>Callers' functions: one that does nothing to the coordinator, one whose function
  \<open>0\<close> makes the compiler fire \<open>invalid\<close> while it runs, and one whose function \<open>0\<close>
  throws.\<close>

definition no_effect :: "nat \<Rightarrow> coordinator \<Rightarrow> coordinator" where
  "no_effect f s = s"

definition touching :: "nat \<Rightarrow> coordinator \<Rightarrow> coordinator" where
  "touching f s = (if f = 0 then invalidPlugin s else s)"

definition throwing :: "nat \<Rightarrow> coordinator \<Rightarrow> coordinator" where
  "throwing f s = (if f = 0 then s\<lparr>thrown := Some (Thrown ''boom'')\<rparr> else s)"

section \<open>Auxiliary facts\<close>

lemma settle_fields [simp]:
  "state (settle p out s) = state s"
  "forceRebuild (settle p out s) = forceRebuild s"
  "runs (settle p out s) = runs s"
  "compilationCallbacks (settle p out s) = compilationCallbacks s"
  "nextTicks (settle p out s) = nextTicks s"
  "reads (settle p out s) = reads s"
  "libraryTarget (settle p out s) = libraryTarget s"
  "useMemoryFs (settle p out s) = useMemoryFs s"
  "outputPath (settle p out s) = outputPath s"
  "entry (settle p out s) = entry s"
  "thrown (settle p out s) = thrown s"
  by (simp_all add: settle_def split: option.splits)

lemma log_fields [simp]:
  "state (log m s) = state s"
  "forceRebuild (log m s) = forceRebuild s"
  "runs (log m s) = runs s"
  "compilationCallbacks (log m s) = compilationCallbacks s"
  "nextTicks (log m s) = nextTicks s"
  "reads (log m s) = reads s"
  "settled (log m s) = settled s"
  "libraryTarget (log m s) = libraryTarget s"
  "logged (log m s) = logged s @ [m]"
  "useMemoryFs (log m s) = useMemoryFs s"
  "outputPath (log m s) = outputPath s"
  "entry (log m s) = entry s"
  "thrown (log m s) = thrown s"
  by (simp_all add: log_def)

lemma leave_fields [simp]:
  "state (leave s) = state s"
  "forceRebuild (leave s) = forceRebuild s"
  "runs (leave s) = runs s"
  "compilationCallbacks (leave s) = compilationCallbacks s"
  "nextTicks (leave s) = nextTicks s"
  "reads (leave s) = reads s"
  "settled (leave s) = settled s"
  "libraryTarget (leave s) = libraryTarget s"
  "logged (leave s) = logged s"
  "useMemoryFs (leave s) = useMemoryFs s"
  "outputPath (leave s) = outputPath s"
  "entry (leave s) = entry s"
  "thrown (leave s) = None"
  by (simp_all add: leave_def split: option.splits)

lemma readFileCallback_fields:
  "state (readFileCallback h out p n src res s) = state s"
  "forceRebuild (readFileCallback h out p n src res s) = forceRebuild s"
  "runs (readFileCallback h out p n src res s) = runs s"
  "compilationCallbacks (readFileCallback h out p n src res s) = compilationCallbacks s"
  "nextTicks (readFileCallback h out p n src res s) = nextTicks s"
  "reads (readFileCallback h out p n src res s) = reads s"
  by (simp_all add: readFileCallback_def Let_def split: sum.splits)

text \<open>While the state is invalid, no event but \<open>done\<close> makes it valid, calls a continuation
  or runs the compiler; only \<open>rebuild\<close> sets the flag.\<close>

lemma fire_window:
  assumes "\<not> state s" "\<not> is_done e"
  shows "fst (fire h c e s) = [] \<and> \<not> state (snd (fire h c e s)) \<and>
         runs (snd (fire h c e s)) = runs s \<and>
         forceRebuild (snd (fire h c e s)) = (forceRebuild s \<or> is_rebuild e)"
  using assms
  by (cases e)
     (auto simp: fire_def invalidPlugin_def invalidAsyncPlugin_def tick_def readyCallback_def
        rebuild_def resolveWhenReady_def resolveHandler_def Let_def readFileCallback_fields
        split: list.splits prod.splits option.splits)

lemma exec_window:
  assumes "\<not> state s" "\<forall>e\<in>set es. \<not> is_done e"
  shows "fst (exec h c es s) = [] \<and> \<not> state (snd (exec h c es s)) \<and>
         runs (snd (exec h c es s)) = runs s \<and>
         forceRebuild (snd (exec h c es s)) = (forceRebuild s \<or> (\<exists>e\<in>set es. is_rebuild e))"
  using assms
proof (induction es arbitrary: s)
  case Nil
  then show ?case by simp
next
  case (Cons e es)
  from Cons.prems have w: "\<not> state s" "\<not> is_done e" by simp_all
  note f = fire_window [OF w, of h c]
  from Cons.prems have r: "\<forall>e\<in>set es. \<not> is_done e" by simp
  from f have "\<not> state (snd (fire h c e s))" by simp
  note ih = Cons.IH [OF this r]
  show ?case using f ih by (auto simp: Let_def)
qed

lemma done_handler_runs:
  "\<not> state s \<Longrightarrow> runs (done_handler st s) = runs s + (if forceRebuild s then 1 else 0)"
  "\<not> forceRebuild (done_handler st s)"
  by (simp_all add: done_handler_def rebuild_def compiler_run_def Let_def)

lemma exec_append:
  "exec h c (es @ es') s =
     (fst (exec h c es s) @ fst (exec h c es' (snd (exec h c es s))),
      snd (exec h c es' (snd (exec h c es s))))"
  by (induction es arbitrary: s) (simp_all add: Let_def)

lemma makeConfig_libraryTarget_cases:
  "makeConfig_libraryTarget t = CommonJS \<or> makeConfig_libraryTarget t = CommonJS2"
  by (simp add: makeConfig_libraryTarget_def split: option.splits)

section \<open>Rebuild requests\<close>

text \<open>
  C1. Take any sequence of events that arrives while the state is invalid and holds no
  \<open>done\<close> event, with any number of calls of \<open>rebuild\<close> among them. None of them calls
  \<open>compiler.run\<close>. The \<open>done\<close> handler that follows calls it once when the flag
  \<open>forceRebuild\<close> was set before or one of the events was a \<open>rebuild\<close>, and not at all
  otherwise: at most once, however many \<open>rebuild\<close> calls there were. The handler leaves
  the flag cleared, so a further \<open>done\<close> event calls \<open>compiler.run\<close> no more.
\<close>

theorem rebuild_coalesced:
  assumes "\<not> state s" and "\<forall>e\<in>set es. \<not> is_done e"
  shows "runs (snd (exec h c es s)) = runs s \<and>
         runs (done_handler st (snd (exec h c es s))) =
           runs s + (if forceRebuild s \<or> (\<exists>e\<in>set es. is_rebuild e) then 1 else 0) \<and>
         runs (done_handler st (snd (exec h c es s))) \<le> runs s + 1 \<and>
         \<not> forceRebuild (done_handler st (snd (exec h c es s))) \<and>
         runs (done_handler st' (done_handler st (snd (exec h c es s)))) =
           runs (done_handler st (snd (exec h c es s)))"
proof -
  let ?w = "snd (exec h c es s)"
  note w = exec_window [OF assms, of h c]
  from w have nst: "\<not> state ?w" by simp
  have d: "runs (done_handler st ?w) = runs ?w + (if forceRebuild ?w then 1 else 0)"
    by (rule done_handler_runs(1) [OF nst])
  have c: "\<not> forceRebuild (done_handler st ?w)" by (rule done_handler_runs(2))
  have d2: "runs (done_handler st' (done_handler st ?w)) = runs (done_handler st ?w)"
    using c by (simp add: done_handler_def [of st'] Let_def)
  show ?thesis using w d c d2 by auto
qed

theorem rebuild_coalesced_witness:
  "\<not> state coord0 \<and>
   runs (snd (exec host0 no_effect
      [EvRebuild, EvResolve 1 ''alpha'', EvRebuild, EvInvalid, EvRebuild] coord0)) = 0 \<and>
   runs (done_handler stats0 (snd (exec host0 no_effect
      [EvRebuild, EvResolve 1 ''alpha'', EvRebuild, EvInvalid, EvRebuild] coord0))) = 1"
proof -
  let ?es = "[EvRebuild, EvResolve 1 ''alpha'', EvRebuild, EvInvalid, EvRebuild]"
  have h1: "\<not> state coord0" by (simp add: coord0_def)
  have h2: "\<forall>e\<in>set ?es. \<not> is_done e" by simp
  have v: "runs coord0 = 0"
    "runs coord0 + (if forceRebuild coord0 \<or> (\<exists>e\<in>set ?es. is_rebuild e) then 1 else 0) = 1"
    by (simp_all add: coord0_def)
  note th = rebuild_coalesced [OF h1 h2, of host0 no_effect stats0 stats0]
  from th have a: "runs (snd (exec host0 no_effect ?es coord0)) = runs coord0"
    by (elim conjE)
  from th have b: "runs (done_handler stats0 (snd (exec host0 no_effect ?es coord0))) =
      runs coord0 + (if forceRebuild coord0 \<or> (\<exists>e\<in>set ?es. is_rebuild e) then 1 else 0)"
    by (elim conjE)
  from h1 a [unfolded v(1)] b [unfolded v(2)] show ?thesis by (intro conjI)
qed

text \<open>
  C2, as the claim states it, fails. With the flag set and one continuation waiting, the
  \<open>done\<close> handler itself has cleared the flag and called \<open>compiler.run\<close> before any turn
  of the \<open>nextTick\<close> queue, and the deferred drain that follows calls no continuation
  and leaves the queue as it was.
\<close>

theorem drain_before_rebuild_counterexample:
  "runs (snd (exec host0 no_effect [EvDone stats0] coord_flagged)) = 1 \<and>
   \<not> forceRebuild (snd (exec host0 no_effect [EvDone stats0] coord_flagged)) \<and>
   fst (exec host0 no_effect [EvDone stats0] coord_flagged) = [] \<and>
   fst (exec host0 no_effect [EvDone stats0, EvTick] coord_flagged) = [] \<and>
   compilationCallbacks (snd (exec host0 no_effect [EvDone stats0, EvTick] coord_flagged)) =
     [Fn ''waiter'' 0]"
  by (simp add: coord_flagged_def coord0_def fire_def done_handler_def rebuild_def
      compiler_run_def tick_def readyCallback_def Let_def)

text \<open>
  C2, amended. When the \<open>done\<close> handler runs with \<open>forceRebuild\<close> set, it clears the flag
  and calls \<open>compiler.run\<close> exactly once within the handler, before the deferred drain.
  That rebuild makes the state invalid again, so the drain scheduled by this \<open>done\<close>
  event (and any turn of the \<open>nextTick\<close> queue taken then) calls no continuation and
  leaves the queue unchanged.
\<close>

theorem rebuild_before_drain:
  assumes "forceRebuild s"
  shows "\<not> forceRebuild (done_handler st s) \<and>
         runs (done_handler st s) = runs s + 1 \<and>
         \<not> state (done_handler st s) \<and>
         compilationCallbacks (done_handler st s) = compilationCallbacks s \<and>
         nextTicks (done_handler st s) = nextTicks s @ [st] \<and>
         readyCallback h c st (done_handler st s) = ([], done_handler st s) \<and>
         fst (tick h c (done_handler st s)) = [] \<and>
         compilationCallbacks (snd (tick h c (done_handler st s))) = compilationCallbacks s"
  using assms
  by (simp add: done_handler_def rebuild_def compiler_run_def readyCallback_def tick_def Let_def
      split: list.splits)

theorem rebuild_before_drain_witness:
  "forceRebuild coord_flagged \<and>
   runs (done_handler stats0 coord_flagged) = 1 \<and>
   fst (tick host0 no_effect (done_handler stats0 coord_flagged)) = [] \<and>
   compilationCallbacks (snd (tick host0 no_effect (done_handler stats0 coord_flagged))) =
     [Fn ''waiter'' 0]"
proof -
  have h: "forceRebuild coord_flagged" by (simp add: coord_flagged_def)
  have v: "runs coord_flagged + 1 = 1" "compilationCallbacks coord_flagged = [Fn ''waiter'' 0]"
    by (simp_all add: coord_flagged_def coord0_def)
  note th = rebuild_before_drain [OF h, of stats0 host0 no_effect]
  from th have a: "runs (done_handler stats0 coord_flagged) = runs coord_flagged + 1"
    by (elim conjE)
  from th have b: "fst (tick host0 no_effect (done_handler stats0 coord_flagged)) = []"
    by (elim conjE)
  from th have c:
    "compilationCallbacks (snd (tick host0 no_effect (done_handler stats0 coord_flagged))) =
      compilationCallbacks coord_flagged"
    by (elim conjE)
  from h a [unfolded v(1)] b c [unfolded v(2)] show ?thesis by (intro conjI)
qed

section \<open>The deferred drain\<close>

text \<open>
  C3. A drain that finds the state invalid calls no continuation and changes nothing.
  So when an invalidation (the \<open>invalid\<close>, \<open>watch-run\<close> or \<open>run\<close> hook) comes after a
  \<open>done\<close> event and before the turn of the \<open>nextTick\<close> queue, that turn calls no
  continuation: the queue, the promises and the pending reads are as before.
\<close>

theorem invalidated_drain_skipped:
  assumes "is_invalidation e"
  shows "(\<not> state s \<longrightarrow> readyCallback h c st s = ([], s)) \<and>
         \<not> state (snd (exec h c [EvDone st, e] s)) \<and>
         fst (exec h c [EvDone st, e, EvTick] s) = [] \<and>
         compilationCallbacks (snd (exec h c [EvDone st, e, EvTick] s)) = compilationCallbacks s \<and>
         settled (snd (exec h c [EvDone st, e, EvTick] s)) = settled s \<and>
         reads (snd (exec h c [EvDone st, e, EvTick] s)) = reads s"
  using assms
  by (cases e)
     (simp_all add: fire_def done_handler_def rebuild_def compiler_run_def invalidPlugin_def
        invalidAsyncPlugin_def tick_def readyCallback_def Let_def log_def split: list.splits)

theorem invalidated_drain_skipped_witness:
  "is_invalidation EvInvalid \<and>
   fst (exec host0 no_effect [EvDone stats0, EvInvalid, EvTick]
      (coord0\<lparr>compilationCallbacks := [Fn ''waiter'' 0]\<rparr>)) = [] \<and>
   compilationCallbacks (snd (exec host0 no_effect [EvDone stats0, EvInvalid, EvTick]
      (coord0\<lparr>compilationCallbacks := [Fn ''waiter'' 0]\<rparr>))) = [Fn ''waiter'' 0]"
proof -
  let ?s = "coord0\<lparr>compilationCallbacks := [Fn ''waiter'' 0]\<rparr>"
  have h: "is_invalidation EvInvalid" by simp
  have v: "compilationCallbacks ?s = [Fn ''waiter'' 0]" by simp
  note th = invalidated_drain_skipped [OF h, of ?s host0 no_effect stats0]
  from th have a: "fst (exec host0 no_effect [EvDone stats0, EvInvalid, EvTick] ?s) = []"
    by (elim conjE)
  from th have b:
    "compilationCallbacks (snd (exec host0 no_effect [EvDone stats0, EvInvalid, EvTick] ?s)) =
       compilationCallbacks ?s"
    by (elim conjE)
  from h a b [unfolded v] show ?thesis by (intro conjI)
qed

section \<open>The order of the drain\<close>

lemma foldl_drain_stuck: "thrown s \<noteq> None \<Longrightarrow> foldl (drain_step h c) s cbs = s"
  by (induction cbs) (auto simp: drain_step_def)

lemma forEach_fold: "thrown s = None \<Longrightarrow> snd (forEach h c cbs s) = foldl (drain_step h c) s cbs"
proof (induction cbs arbitrary: s)
  case Nil
  then show ?case by simp
next
  case (Cons cb cbs)
  let ?s1 = "invoke h c cb s"
  have st: "drain_step h c s cb = ?s1"
    using Cons.prems by (simp add: drain_step_def)
  have r: "snd (forEach h c cbs ?s1) = foldl (drain_step h c) ?s1 cbs" if "thrown ?s1 = None"
    using that by (rule Cons.IH)
  have k: "foldl (drain_step h c) ?s1 cbs = ?s1" if "thrown ?s1 \<noteq> None"
    using that by (rule foldl_drain_stuck)
  have "snd (forEach h c (cb # cbs) s) = foldl (drain_step h c) ?s1 cbs"
  proof (cases "thrown ?s1 = None")
    case True
    with r show ?thesis by (simp add: Let_def)
  next
    case False
    then obtain y where y: "thrown ?s1 = Some y" by auto
    from k False have "foldl (drain_step h c) ?s1 cbs = ?s1" by simp
    then show ?thesis by (simp add: Let_def y)
  qed
  then show ?case by (simp add: st)
qed

lemma readyCallback_fold:
  assumes "state t" "thrown t = None"
  shows "snd (readyCallback h c st t) =
           foldl (drain_step h c) (snd (readyCallback h c st (t\<lparr>compilationCallbacks := []\<rparr>)))
             (compilationCallbacks t)"
  using assms by (simp add: readyCallback_def Let_def forEach_fold log_def)

lemma invoke_doResolve_disk:
  assumes "state s" "\<not> useMemoryFs s"
  shows "invoke h c (DoResolve p n out src) s =
           (log (''webpack: resolving now - ready! - '' @ out) s)
             \<lparr>reads := reads s @ [(DiskFs, out, p, n, src)]\<rparr>"
  using assms by (simp add: invoke_def doResolve_def getOutputFileSystem_def Let_def)

lemma forEach_disk_reads:
  assumes "state s" "\<not> useMemoryFs s" "thrown s = None" "list_all is_doResolve cbs"
  shows "reads (snd (forEach h c cbs s)) = reads s @ concat (map pending_read cbs) \<and>
         compilationCallbacks (snd (forEach h c cbs s)) = compilationCallbacks s \<and>
         settled (snd (forEach h c cbs s)) = settled s"
  using assms
proof (induction cbs arbitrary: s)
  case Nil
  then show ?case by simp
next
  case (Cons cb cbs)
  from Cons.prems obtain p n out src where cb: "cb = DoResolve p n out src"
    by (cases cb) simp_all
  let ?s1 = "invoke h c (DoResolve p n out src) s"
  have i: "?s1 = (log (''webpack: resolving now - ready! - '' @ out) s)
                   \<lparr>reads := reads s @ [(DiskFs, out, p, n, src)]\<rparr>"
    by (rule invoke_doResolve_disk) (use Cons.prems in simp_all)
  have p1: "state ?s1" "\<not> useMemoryFs ?s1" "thrown ?s1 = None"
    using Cons.prems by (simp_all add: i)
  from Cons.prems have r: "list_all is_doResolve cbs" by simp
  note ih = Cons.IH [OF p1 r]
  have v: "reads ?s1 = reads s @ [(DiskFs, out, p, n, src)]"
    "compilationCallbacks ?s1 = compilationCallbacks s" "settled ?s1 = settled s"
    by (simp_all add: i)
  show ?case unfolding cb using ih p1(3) v by (simp add: Let_def)
qed

lemma readyCallback_disk_reads:
  assumes "state t" "\<not> useMemoryFs t" "thrown t = None"
    "list_all is_doResolve (compilationCallbacks t)"
  shows "reads (snd (readyCallback h c st t)) =
           reads t @ concat (map pending_read (compilationCallbacks t)) \<and>
         compilationCallbacks (snd (readyCallback h c st t)) = [] \<and>
         settled (snd (readyCallback h c st t)) = settled t"
proof -
  let ?s3 = "log ''webpack: bundle is now VALID.''
     (if (\<not> quiet t \<and> stats_enabled t) \<or> hasErrors st \<or> hasWarnings st
      then log (display_text st) (log (''webpack compiled '' @ compiled_text st) t)
      else log (''webpack compiled '' @ compiled_text st) t)"
  let ?s4 = "?s3\<lparr>compilationCallbacks := []\<rparr>"
  have e: "readyCallback h c st t = forEach h c (compilationCallbacks t) ?s4"
    using assms(1) by (simp add: readyCallback_def Let_def log_def)
  have p: "state ?s4" "\<not> useMemoryFs ?s4" "thrown ?s4 = None"
    using assms by simp_all
  note f = forEach_disk_reads [OF p assms(4), of h c]
  show ?thesis using f by (simp add: e)
qed

lemma fire_resolve_call:
  assumes "\<not> state s" "is_resolve_call e"
  shows "fst (fire h c e s) = [] \<and> \<not> state (snd (fire h c e s)) \<and>
         compilationCallbacks (snd (fire h c e s)) = compilationCallbacks s @ queued_by h s e \<and>
         outputPath (snd (fire h c e s)) = outputPath s \<and>
         entry (snd (fire h c e s)) = entry s \<and>
         forceRebuild (snd (fire h c e s)) = forceRebuild s \<and>
         nextTicks (snd (fire h c e s)) = nextTicks s \<and>
         reads (snd (fire h c e s)) = reads s \<and>
         useMemoryFs (snd (fire h c e s)) = useMemoryFs s \<and>
         thrown (snd (fire h c e s)) = None"
  using assms
  by (cases e)
     (simp_all add: fire_def resolveWhenReady_def resolveHandler_def Let_def
        split: option.splits)

lemma queued_by_same:
  "outputPath s' = outputPath s \<Longrightarrow> entry s' = entry s \<Longrightarrow> queued_by h s' e = queued_by h s e"
  by (cases e) simp_all

lemma exec_resolve_calls:
  assumes "\<not> state s" "\<forall>e\<in>set es. is_resolve_call e"
  shows "fst (exec h c es s) = [] \<and> \<not> state (snd (exec h c es s)) \<and>
         compilationCallbacks (snd (exec h c es s)) =
           compilationCallbacks s @ concat (map (queued_by h s) es) \<and>
         forceRebuild (snd (exec h c es s)) = forceRebuild s \<and>
         nextTicks (snd (exec h c es s)) = nextTicks s \<and>
         reads (snd (exec h c es s)) = reads s \<and>
         useMemoryFs (snd (exec h c es s)) = useMemoryFs s \<and>
         (thrown s = None \<longrightarrow> thrown (snd (exec h c es s)) = None)"
  using assms
proof (induction es arbitrary: s)
  case Nil
  then show ?case by simp
next
  case (Cons e es)
  from Cons.prems have w: "\<not> state s" "is_resolve_call e" by simp_all
  note f = fire_resolve_call [OF w, of h c]
  from Cons.prems have r: "\<forall>e\<in>set es. is_resolve_call e" by simp
  from f have "\<not> state (snd (fire h c e s))" by simp
  note ih = Cons.IH [OF this r]
  have "queued_by h (snd (fire h c e s)) x = queued_by h s x" for x
    using f by (intro queued_by_same) simp_all
  then have q: "map (queued_by h (snd (fire h c e s))) es = map (queued_by h s) es"
    by simp
  show ?case using f ih q by (simp add: Let_def)
qed

lemma drain_after_done_disk:
  assumes "\<not> state s" "\<not> forceRebuild s" "thrown s = None" "\<not> useMemoryFs s"
    "list_all is_doResolve (compilationCallbacks s)"
  shows "reads (snd (exec h c [EvDone st, EvTick] s)) =
           reads s @ concat (map pending_read (compilationCallbacks s))"
proof -
  let ?d = "leave (done_handler st s)"
  have d: "state ?d" "\<not> useMemoryFs ?d" "thrown ?d = None" "reads ?d = reads s"
    "compilationCallbacks ?d = compilationCallbacks s" "nextTicks ?d = nextTicks s @ [st]"
    using assms by (simp_all add: done_handler_def Let_def)
  obtain st' rest where n: "nextTicks (done_handler st s) = st' # rest"
    using d(6) by (cases "nextTicks s") simp_all
  let ?t = "?d\<lparr>nextTicks := rest\<rparr>"
  have t: "state ?t" "\<not> useMemoryFs ?t" "thrown ?t = None"
    "list_all is_doResolve (compilationCallbacks ?t)"
    using d assms(5) by simp_all
  note r = readyCallback_disk_reads [OF t, of h c st']
  have k: "tick h c ?d = readyCallback h c st' ?t"
    by (simp add: tick_def n)
  have "snd (exec h c [EvDone st, EvTick] s) = leave (snd (tick h c ?d))"
    by (simp add: fire_def Let_def)
  then show ?thesis using r d by (simp add: k)
qed

text \<open>
  C4, as the claim states it, fails. A caller's function that throws and a \<open>resolve\<close> of
  \<open>alpha\<close> are queued, in this order, while the state is invalid. The drain that follows
  the build calls the function, whose exception ends the loop: the continuation of
  \<open>resolve\<close> is not called (no file is asked for and the promise is not settled) and is
  no longer in the queue.
\<close>

theorem queue_fifo_counterexample:
  "compilationCallbacks (snd (exec host0 throwing
      [EvResolveWhenReady (Fn ''boom'' 0), EvResolve 1 ''alpha''] coord_disk)) =
     [Fn ''boom'' 0, DoResolve 1 ''alpha'' ''/target/alpha.js'' (FStr ''/src/a.js'')] \<and>
   state (snd (exec host0 throwing
      [EvResolveWhenReady (Fn ''boom'' 0), EvResolve 1 ''alpha'', EvDone stats0, EvTick]
      coord_disk)) \<and>
   reads (snd (exec host0 throwing
      [EvResolveWhenReady (Fn ''boom'' 0), EvResolve 1 ''alpha'', EvDone stats0, EvTick]
      coord_disk)) = [] \<and>
   settled (snd (exec host0 throwing
      [EvResolveWhenReady (Fn ''boom'' 0), EvResolve 1 ''alpha'', EvDone stats0, EvTick]
      coord_disk)) = [] \<and>
   compilationCallbacks (snd (exec host0 throwing
      [EvResolveWhenReady (Fn ''boom'' 0), EvResolve 1 ''alpha'', EvDone stats0, EvTick]
      coord_disk)) = [] \<and>
   escaped (snd (exec host0 throwing
      [EvResolveWhenReady (Fn ''boom'' 0), EvResolve 1 ''alpha'', EvDone stats0, EvTick]
      coord_disk)) = [Thrown ''boom'']"
  by code_simp

text \<open>
  C4, amended. Calls of \<open>resolve\<close> and \<open>resolveWhenReady\<close> that arrive while the state is
  invalid call nothing and append their continuations to the queue in the order of the
  calls. A drain that finds the state valid empties the queue and calls the queued
  continuations in the order of the queue, each once, as long as none of them throws:
  the state it leaves is the one reached by calling them one after the other, and a
  continuation that throws ends the drain, so that those queued after it are not called.
  With the output on the disk the continuations of \<open>resolve\<close> do not throw, and the
  drain leaves their read requests pending in the order of the queue; so does the turn
  of the \<open>nextTick\<close> queue after a build that completes with no rebuild pending.
\<close>

theorem queue_fifo:
  assumes "\<not> state s" and "\<forall>e\<in>set es. is_resolve_call e"
  shows "fst (exec h c es s) = [] \<and>
         reads (snd (exec h c es s)) = reads s \<and>
         compilationCallbacks (snd (exec h c es s)) =
           compilationCallbacks s @ concat (map (queued_by h s) es) \<and>
         (\<forall>t. state t \<and> thrown t = None \<longrightarrow>
            snd (readyCallback h c st t) =
              foldl (drain_step h c) (snd (readyCallback h c st (t\<lparr>compilationCallbacks := []\<rparr>)))
                (compilationCallbacks t)) \<and>
         (\<forall>t. state t \<and> thrown t = None \<and> \<not> useMemoryFs t \<and>
              list_all is_doResolve (compilationCallbacks t) \<longrightarrow>
            reads (snd (readyCallback h c st t)) =
              reads t @ concat (map pending_read (compilationCallbacks t)) \<and>
            compilationCallbacks (snd (readyCallback h c st t)) = []) \<and>
         (\<not> forceRebuild s \<and> thrown s = None \<and> \<not> useMemoryFs s \<and>
            list_all is_doResolve (compilationCallbacks s @ concat (map (queued_by h s) es)) \<longrightarrow>
            reads (snd (exec h c (es @ [EvDone st, EvTick]) s)) =
              reads s @
              concat (map pending_read (compilationCallbacks s @ concat (map (queued_by h s) es))))"
proof -
  let ?w = "snd (exec h c es s)"
  note w = exec_resolve_calls [OF assms, of h c]
  have a: "fst (exec h c es s) = []" "reads ?w = reads s"
    "compilationCallbacks ?w = compilationCallbacks s @ concat (map (queued_by h s) es)"
    using w by simp_all
  have b: "\<forall>t. state t \<and> thrown t = None \<longrightarrow>
            snd (readyCallback h c st t) =
              foldl (drain_step h c) (snd (readyCallback h c st (t\<lparr>compilationCallbacks := []\<rparr>)))
                (compilationCallbacks t)"
    using readyCallback_fold by blast
  have c: "\<forall>t. state t \<and> thrown t = None \<and> \<not> useMemoryFs t \<and>
              list_all is_doResolve (compilationCallbacks t) \<longrightarrow>
            reads (snd (readyCallback h c st t)) =
              reads t @ concat (map pending_read (compilationCallbacks t)) \<and>
            compilationCallbacks (snd (readyCallback h c st t)) = []"
    using readyCallback_disk_reads by blast
  have d: "reads (snd (exec h c (es @ [EvDone st, EvTick]) s)) =
              reads s @
              concat (map pending_read (compilationCallbacks s @ concat (map (queued_by h s) es)))"
    if "\<not> forceRebuild s" "thrown s = None" "\<not> useMemoryFs s"
      "list_all is_doResolve (compilationCallbacks s @ concat (map (queued_by h s) es))"
  proof -
    have p: "\<not> state ?w" "\<not> forceRebuild ?w" "thrown ?w = None" "\<not> useMemoryFs ?w"
      "list_all is_doResolve (compilationCallbacks ?w)"
      using w that by simp_all
    note r = drain_after_done_disk [OF p, of h c st]
    show ?thesis using r a by (simp add: exec_append)
  qed
  from a b c d show ?thesis by blast
qed

theorem queue_fifo_witness:
  "\<not> state coord_disk \<and>
   list_all is_resolve_call [EvResolve 1 ''alpha'', EvResolve 2 ''beta'', EvResolve 3 ''alpha''] \<and>
   reads (snd (exec host0 no_effect
      ([EvResolve 1 ''alpha'', EvResolve 2 ''beta'', EvResolve 3 ''alpha''] @ [EvDone stats0, EvTick])
      coord_disk)) =
     [(DiskFs, ''/target/alpha.js'', 1, ''alpha'', FStr ''/src/a.js''),
      (DiskFs, ''/target/beta.js'', 2, ''beta'', FStr ''/src/b.js''),
      (DiskFs, ''/target/alpha.js'', 3, ''alpha'', FStr ''/src/a.js'')] \<and>
   settled (snd (exec host0 no_effect
      ([EvResolve 1 ''alpha'', EvResolve 2 ''beta'', EvResolve 3 ''alpha''] @ [EvDone stats0, EvTick])
      (coord_built\<lparr>state := False\<rparr>))) =
     [(1, Resolved (JsFunction 1 [])), (2, Resolved (JsFunction 2 [])),
      (3, Resolved (JsFunction 1 []))]"
proof -
  let ?es = "[EvResolve 1 ''alpha'', EvResolve 2 ''beta'', EvResolve 3 ''alpha'']"
  let ?q = "compilationCallbacks coord_disk @ concat (map (queued_by host0 coord_disk) ?es)"
  have h1: "\<not> state coord_disk" by (simp add: coord_disk_def coord0_def)
  have h2: "\<forall>e\<in>set ?es. is_resolve_call e" by simp
  have q: "?q =
     [DoResolve 1 ''alpha'' ''/target/alpha.js'' (FStr ''/src/a.js''),
      DoResolve 2 ''beta'' ''/target/beta.js'' (FStr ''/src/b.js''),
      DoResolve 3 ''alpha'' ''/target/alpha.js'' (FStr ''/src/a.js'')]"
    by (simp add: coord_disk_def coord0_def host0_def)
  have h3: "\<not> forceRebuild coord_disk \<and> thrown coord_disk = None \<and> \<not> useMemoryFs coord_disk \<and>
      list_all is_doResolve ?q"
    unfolding q by (simp add: coord_disk_def coord0_def)
  have v: "reads coord_disk @ concat (map pending_read ?q) =
     [(DiskFs, ''/target/alpha.js'', 1, ''alpha'', FStr ''/src/a.js''),
      (DiskFs, ''/target/beta.js'', 2, ''beta'', FStr ''/src/b.js''),
      (DiskFs, ''/target/alpha.js'', 3, ''alpha'', FStr ''/src/a.js'')]"
    unfolding q by (simp add: coord_disk_def coord0_def)
  note th = queue_fifo [OF h1 h2, of host0 no_effect stats0]
  from th have "\<not> forceRebuild coord_disk \<and> thrown coord_disk = None \<and>
        \<not> useMemoryFs coord_disk \<and> list_all is_doResolve ?q \<longrightarrow>
        reads (snd (exec host0 no_effect (?es @ [EvDone stats0, EvTick]) coord_disk)) =
        reads coord_disk @ concat (map pending_read ?q)"
    by (elim conjE)
  from this h3
  have "reads (snd (exec host0 no_effect (?es @ [EvDone stats0, EvTick]) coord_disk)) =
        reads coord_disk @ concat (map pending_read ?q)"
    by (rule mp)
  then have e: "reads (snd (exec host0 no_effect (?es @ [EvDone stats0, EvTick]) coord_disk)) =
     [(DiskFs, ''/target/alpha.js'', 1, ''alpha'', FStr ''/src/a.js''),
      (DiskFs, ''/target/beta.js'', 2, ''beta'', FStr ''/src/b.js''),
      (DiskFs, ''/target/alpha.js'', 3, ''alpha'', FStr ''/src/a.js'')]"
    by (rule trans [OF _ v])
  have l: "list_all is_resolve_call ?es" by simp
  have m: "settled (snd (exec host0 no_effect (?es @ [EvDone stats0, EvTick])
      (coord_built\<lparr>state := False\<rparr>))) =
     [(1, Resolved (JsFunction 1 [])), (2, Resolved (JsFunction 2 [])),
      (3, Resolved (JsFunction 1 []))]"
    by code_simp
  from h1 l e m show ?thesis by (intro conjI)
qed

section \<open>The resolver\<close>

text \<open>
  C5, as the claim states it, fails. \<open>gamma\<close> is not an entry, yet \<open>resolve("gamma")\<close>
  called while the state is invalid settles no promise and appends its continuation to
  the queue.
\<close>

theorem unknown_name_rejected_counterexample:
  "map_of (entry coord0) ''gamma'' = None \<and>
   fst (resolveHandler host0 no_effect 7 ''gamma'' coord0) = [] \<and>
   settled (snd (resolveHandler host0 no_effect 7 ''gamma'' coord0)) = [] \<and>
   compilationCallbacks (snd (resolveHandler host0 no_effect 7 ''gamma'' coord0)) =
     [DoResolve 7 ''gamma'' ''/target/gamma.js'' FUndef]"
  by code_simp

text \<open>
  C5, amended. \<open>resolve\<close> makes no test of the name against \<open>config.entry\<close> and there is
  no error for an unknown name. For a name that is no entry it reads the state through
  \<open>resolveWhenReady\<close> as for any other name. While the state is invalid it settles
  nothing, asks for no file and appends the continuation to the queue. While the state
  is valid it calls the continuation at once and does not queue it; with the output on
  the disk that leaves the request for the file of that name pending and the promise
  not settled.
\<close>

theorem unknown_name_handled_as_known:
  assumes "map_of (entry s) funName = None" and "thrown s = None"
  shows "(\<not> state s \<longrightarrow>
            fst (resolveHandler h c pid funName s) = [] \<and>
            settled (snd (resolveHandler h c pid funName s)) = settled s \<and>
            reads (snd (resolveHandler h c pid funName s)) = reads s \<and>
            compilationCallbacks (snd (resolveHandler h c pid funName s)) =
              compilationCallbacks s @
              [DoResolve pid funName (path_resolve h (outputPath s) (funName @ ''.js''))
                 (inherited_entry h funName)]) \<and>
         (state s \<longrightarrow>
            fst (resolveHandler h c pid funName s) =
              [DoResolve pid funName (path_resolve h (outputPath s) (funName @ ''.js''))
                 (inherited_entry h funName)] \<and>
            compilationCallbacks (snd (resolveHandler h c pid funName s)) =
              compilationCallbacks s) \<and>
         (state s \<and> \<not> useMemoryFs s \<longrightarrow>
            settled (snd (resolveHandler h c pid funName s)) = settled s \<and>
            reads (snd (resolveHandler h c pid funName s)) =
              reads s @ [(DiskFs, path_resolve h (outputPath s) (funName @ ''.js''), pid, funName,
                 inherited_entry h funName)])"
  using assms
  by (auto simp: resolveHandler_def resolveWhenReady_def invoke_def doResolve_def Let_def
      getOutputFileSystem_def readFileCallback_fields split: option.splits)

theorem unknown_name_handled_as_known_witness:
  "map_of (entry coord0) ''gamma'' = None \<and>
   compilationCallbacks (snd (resolveHandler host0 no_effect 7 ''gamma'' coord0)) =
     [DoResolve 7 ''gamma'' ''/target/gamma.js'' FUndef] \<and>
   reads (snd (resolveHandler host0 no_effect 7 ''gamma'' (coord_disk\<lparr>state := True\<rparr>))) =
     [(DiskFs, ''/target/gamma.js'', 7, ''gamma'', FUndef)]"
proof -
  let ?v = "coord_disk\<lparr>state := True\<rparr>"
  have e0: "map_of (entry coord0) ''gamma'' = None" "thrown coord0 = None"
    by (simp_all add: coord0_def)
  have e1: "map_of (entry ?v) ''gamma'' = None" "thrown ?v = None"
    by (simp_all add: coord_disk_def coord0_def)
  have s0: "\<not> state coord0" by (simp add: coord0_def)
  have s1: "state ?v \<and> \<not> useMemoryFs ?v" by (simp add: coord_disk_def coord0_def)
  have v0: "compilationCallbacks coord0 @
       [DoResolve 7 ''gamma'' (path_resolve host0 (outputPath coord0) (''gamma'' @ ''.js''))
          (inherited_entry host0 ''gamma'')] =
       [DoResolve 7 ''gamma'' ''/target/gamma.js'' FUndef]"
    by (simp add: coord0_def host0_def)
  have v1: "reads ?v @ [(DiskFs, path_resolve host0 (outputPath ?v) (''gamma'' @ ''.js''), 7,
          ''gamma'', inherited_entry host0 ''gamma'')] =
       [(DiskFs, ''/target/gamma.js'', 7, ''gamma'', FUndef)]"
    by (simp add: coord_disk_def coord0_def host0_def)
  have a: "compilationCallbacks (snd (resolveHandler host0 no_effect 7 ''gamma'' coord0)) =
       compilationCallbacks coord0 @
       [DoResolve 7 ''gamma'' (path_resolve host0 (outputPath coord0) (''gamma'' @ ''.js''))
          (inherited_entry host0 ''gamma'')]"
    using unknown_name_handled_as_known [OF e0, of host0 no_effect 7] s0 by blast
  have b: "reads (snd (resolveHandler host0 no_effect 7 ''gamma'' ?v)) =
       reads ?v @ [(DiskFs, path_resolve host0 (outputPath ?v) (''gamma'' @ ''.js''), 7,
          ''gamma'', inherited_entry host0 ''gamma'')]"
    using unknown_name_handled_as_known [OF e1, of host0 no_effect 7] s1 by blast
  from e0(1) a [unfolded v0] b [unfolded v1] show ?thesis by (intro conjI)
qed

section \<open>Invalidation\<close>

text \<open>
  C6. The code at the failing input: the bundle is valid and the compiler fires
  \<open>watch-run\<close>. \<open>invalidAsyncPlugin\<close> makes the state invalid and logs nothing for this
  edge from valid to invalid, since it clears \<open>state\<close> before it calls \<open>invalidPlugin\<close>.
  \<open>invalidPlugin\<close> called on the same state logs the transition, once, also when it is
  called a second time.
\<close>

theorem async_invalidation_not_logged:
  "state coord_valid \<and>
   \<not> state (invalidAsyncPlugin coord_valid) \<and>
   logged (invalidAsyncPlugin coord_valid) = logged coord_valid \<and>
   logged (snd (fire host0 no_effect EvWatchRun coord_valid)) = [] \<and>
   logged (invalidPlugin coord_valid) = [''webpack: bundle is now INVALID.''] \<and>
   logged (invalidPlugin (invalidPlugin coord_valid)) = [''webpack: bundle is now INVALID.'']"
  by (simp add: coord_valid_def coord0_def invalidAsyncPlugin_def invalidPlugin_def log_def
      fire_def Let_def)

section \<open>Loading the artifact\<close>

text \<open>
  C7. When the read succeeds and the loader returns the module's exports, the promise
  is resolved. With \<open>libraryTarget\<close> equal to \<open>commonjs\<close> and the exports an object, it is
  resolved with the value that \<open>loadedModule[funName]\<close> yields: the export of that name
  when the object has one, and otherwise what the object inherits under that name
  (\<open>undefined\<close> if nothing). With any other \<open>libraryTarget\<close> it is resolved with the
  exports as they are. After \<open>makeConfig\<close> the only other target is \<open>commonjs2\<close>.
\<close>

theorem export_by_library_target:
  assumes "map_of (settled s) pid = None"
    and "requireFromString h (Some moduleCode) srcFile None = Inr loadedModule"
  shows "(libraryTarget s = CommonJS \<longrightarrow> loadedModule = JsObject props \<longrightarrow>
            settled (readFileCallback h outputFile pid funName srcFile (Inr moduleCode) s) =
              settled s @
              [(pid, Resolved (case map_of props funName of
                                 None \<Rightarrow> inherited h (JsObject props) funName
                               | Some v \<Rightarrow> v))]) \<and>
         (libraryTarget s = CommonJS \<longrightarrow> loadedModule = JsObject props \<longrightarrow>
          map_of props funName = Some v \<longrightarrow>
            settled (readFileCallback h outputFile pid funName srcFile (Inr moduleCode) s) =
              settled s @ [(pid, Resolved v)]) \<and>
         (libraryTarget s \<noteq> CommonJS \<longrightarrow>
            settled (readFileCallback h outputFile pid funName srcFile (Inr moduleCode) s) =
              settled s @ [(pid, Resolved loadedModule)]) \<and>
         (makeConfig_libraryTarget t \<noteq> CommonJS \<longrightarrow> makeConfig_libraryTarget t = CommonJS2)"
  using assms makeConfig_libraryTarget_cases [of t]
  by (auto simp: readFileCallback_def Let_def settle_def log_def)

theorem export_by_library_target_witness:
  "settled (readFileCallback host0 ''/target/alpha.js'' 1 ''alpha'' (FStr ''/src/a.js'')
      (Inr ''code'') coord_built) = [(1, Resolved (JsFunction 1 []))] \<and>
   settled (readFileCallback host0 ''/target/alpha.js'' 1 ''alpha'' (FStr ''/src/a.js'')
      (Inr ''code'') (coord_built\<lparr>libraryTarget := CommonJS2\<rparr>)) =
     [(1, Resolved (JsObject [(''alpha'', JsFunction 1 []), (''beta'', JsFunction 2 [])]))] \<and>
   settled (snd (exec host0 no_effect [EvResolve 1 ''alpha''] coord_built)) =
     [(1, Resolved (JsFunction 1 []))]"
proof -
  let ?ps = "[(''alpha'', JsFunction 1 []), (''beta'', JsFunction 2 [])]"
  let ?s2 = "coord_built\<lparr>libraryTarget := CommonJS2\<rparr>"
  have l: "requireFromString host0 (Some ''code'') (FStr ''/src/a.js'') None = Inr (JsObject ?ps)"
    by code_simp
  have p1: "map_of (settled coord_built) 1 = None" "settled coord_built = []"
    "libraryTarget coord_built = CommonJS"
    by (simp_all add: coord_built_def coord0_def)
  have p2: "map_of (settled ?s2) 1 = None" "settled ?s2 = []" "libraryTarget ?s2 \<noteq> CommonJS"
    by (simp_all add: coord_built_def coord0_def CommonJS_def CommonJS2_def)
  have k: "map_of ?ps ''alpha'' = Some (JsFunction 1 [])" by simp
  have a: "settled (readFileCallback host0 ''/target/alpha.js'' 1 ''alpha'' (FStr ''/src/a.js'')
              (Inr ''code'') coord_built) = settled coord_built @ [(1, Resolved (JsFunction 1 []))]"
    using export_by_library_target [OF p1(1) l, where props = ?ps and v = "JsFunction 1 []"
        and outputFile = "''/target/alpha.js''" and funName = "''alpha''" and t = None] p1(3) k
    by blast
  have b: "settled (readFileCallback host0 ''/target/alpha.js'' 1 ''alpha'' (FStr ''/src/a.js'')
              (Inr ''code'') ?s2) = settled ?s2 @ [(1, Resolved (JsObject ?ps))]"
    using export_by_library_target [OF p2(1) l, where props = "[]" and v = Undefined
        and outputFile = "''/target/alpha.js''" and funName = "''alpha''" and t = None] p2(3)
    by blast
  have c: "settled (snd (exec host0 no_effect [EvResolve 1 ''alpha''] coord_built)) =
     [(1, Resolved (JsFunction 1 []))]"
    by code_simp
  from a [unfolded p1(2)] b [unfolded p2(2)] c show ?thesis by simp
qed

text \<open>
  C8. The code at the failing input: the loader is called with the file name
  \<open>/src/a.js\<close> and code that throws the value of \<open>__filename\<close>, or of \<open>__dirname\<close>. What
  the code finds under these names is the path, and the directory, of the loader's own
  file \<open>RequireFromString.js\<close>, not those of \<open>/src/a.js\<close>. The names bound in the scope
  are the seven of \<open>locals\<close>.
\<close>

theorem loader_path_bindings:
  "requireFromString host0 (Some ''throw __filename'') (FStr ''/src/a.js'') None =
     Inl (Thrown ''/app/src/RequireFromString.js'') \<and>
   requireFromString host0 (Some ''throw __dirname'') (FStr ''/src/a.js'') None =
     Inl (Thrown ''/app/src'') \<and>
   map fst (locals host0 (new_Module (Some ''/src/a.js''))) =
     [''module'', ''exports'', ''__dirname'', ''__filename'', ''console'', ''process'', ''require'']"
  by (simp add: requireFromString_def host0_def locals_def new_Module_def Let_def)

text \<open>
  C9. When the callback of \<open>readFile\<close> is given an error and the caller's promise is
  pending, the promise is rejected with that error. The state, the rebuild flag, the
  queue, the pending reads and ticks and the number of compiler runs are as before,
  and so is the outcome of every other promise.
\<close>

theorem read_failure_isolated:
  assumes "map_of (settled s) pid = None"
  shows "settled (readFileCallback h outputFile pid funName srcFile (Inl err) s) =
           settled s @ [(pid, Rejected err)] \<and>
         state (readFileCallback h outputFile pid funName srcFile (Inl err) s) = state s \<and>
         forceRebuild (readFileCallback h outputFile pid funName srcFile (Inl err) s) =
           forceRebuild s \<and>
         compilationCallbacks (readFileCallback h outputFile pid funName srcFile (Inl err) s) =
           compilationCallbacks s \<and>
         reads (readFileCallback h outputFile pid funName srcFile (Inl err) s) = reads s \<and>
         nextTicks (readFileCallback h outputFile pid funName srcFile (Inl err) s) = nextTicks s \<and>
         runs (readFileCallback h outputFile pid funName srcFile (Inl err) s) = runs s \<and>
         thrown (readFileCallback h outputFile pid funName srcFile (Inl err) s) = thrown s \<and>
         (\<forall>q. q \<noteq> pid \<longrightarrow>
            map_of (settled (readFileCallback h outputFile pid funName srcFile (Inl err) s)) q =
              map_of (settled s) q)"
  using assms
  by (auto simp: readFileCallback_def settle_def map_add_def split: option.splits)

theorem read_failure_isolated_witness:
  "settled (readFileCallback host0 ''/target/alpha.js'' 1 ''alpha'' (FStr ''/src/a.js'')
      (Inl (IOError ''ENOENT'')) (coord_valid\<lparr>compilationCallbacks := [Fn ''waiter'' 0]\<rparr>)) =
     [(1, Rejected (IOError ''ENOENT''))] \<and>
   compilationCallbacks (readFileCallback host0 ''/target/alpha.js'' 1 ''alpha''
      (FStr ''/src/a.js'') (Inl (IOError ''ENOENT''))
      (coord_valid\<lparr>compilationCallbacks := [Fn ''waiter'' 0]\<rparr>)) = [Fn ''waiter'' 0] \<and>
   settled (snd (exec host0 no_effect [EvResolve 1 ''alpha'']
      (coord_valid\<lparr>compilationCallbacks := [Fn ''waiter'' 0]\<rparr>))) =
     [(1, Rejected (IOError ''ENOENT''))] \<and>
   compilationCallbacks (snd (exec host0 no_effect [EvResolve 1 ''alpha'']
      (coord_valid\<lparr>compilationCallbacks := [Fn ''waiter'' 0]\<rparr>))) = [Fn ''waiter'' 0] \<and>
   settled (snd (exec host0 no_effect
      [EvResolve 1 ''alpha'', EvReadFile 0 (Inl (IOError ''EACCES''))]
      (coord_disk\<lparr>state := True, compilationCallbacks := [Fn ''waiter'' 0]\<rparr>))) =
     [(1, Rejected (IOError ''EACCES''))]"
proof -
  let ?c = "coord_valid\<lparr>compilationCallbacks := [Fn ''waiter'' 0]\<rparr>"
  have p: "map_of (settled ?c) 1 = None" "settled ?c = []"
    "compilationCallbacks ?c = [Fn ''waiter'' 0]"
    by (simp_all add: coord_valid_def coord0_def)
  note th = read_failure_isolated [OF p(1), of host0 "''/target/alpha.js''" "''alpha''"
      "FStr ''/src/a.js''" "IOError ''ENOENT''"]
  from th have a: "settled (readFileCallback host0 ''/target/alpha.js'' 1 ''alpha''
      (FStr ''/src/a.js'') (Inl (IOError ''ENOENT'')) ?c) =
      settled ?c @ [(1, Rejected (IOError ''ENOENT''))]"
    by (elim conjE)
  from th have b: "compilationCallbacks (readFileCallback host0 ''/target/alpha.js'' 1 ''alpha''
      (FStr ''/src/a.js'') (Inl (IOError ''ENOENT'')) ?c) = compilationCallbacks ?c"
    by (elim conjE)
  have c: "settled (snd (exec host0 no_effect [EvResolve 1 ''alpha''] ?c)) =
      [(1, Rejected (IOError ''ENOENT''))]"
    by code_simp
  have d: "compilationCallbacks (snd (exec host0 no_effect [EvResolve 1 ''alpha''] ?c)) =
      [Fn ''waiter'' 0]"
    by code_simp
  have e: "settled (snd (exec host0 no_effect
      [EvResolve 1 ''alpha'', EvReadFile 0 (Inl (IOError ''EACCES''))]
      (coord_disk\<lparr>state := True, compilationCallbacks := [Fn ''waiter'' 0]\<rparr>))) =
     [(1, Rejected (IOError ''EACCES''))]"
    by code_simp
  from a [unfolded p(2)] b [unfolded p(3)] c d e show ?thesis by simp
qed

text \<open>
  C10. A \<open>doResolve\<close> continuation that is called while the state is invalid, its promise
  pending, rejects the promise with the error \<open>resolve called on state not ready\<close> and
  does nothing else: it asks for no file and the queue is as before.
\<close>

theorem not_ready_rejects:
  assumes "\<not> state s" and "map_of (settled s) pid = None"
  shows "invoke h c (DoResolve pid funName outputFile srcFile) s =
           s\<lparr>settled := settled s @ [(pid, Rejected NotReady)]\<rparr> \<and>
         reads (invoke h c (DoResolve pid funName outputFile srcFile) s) = reads s \<and>
         compilationCallbacks (invoke h c (DoResolve pid funName outputFile srcFile) s) =
           compilationCallbacks s"
  using assms by (simp add: invoke_def doResolve_def settle_def)

theorem not_ready_rejects_witness:
  "fst (forEach host0 touching
      [Fn ''touch'' 0, DoResolve 5 ''alpha'' ''/target/alpha.js'' (FStr ''/src/a.js'')]
      coord_valid) =
     [Fn ''touch'' 0, DoResolve 5 ''alpha'' ''/target/alpha.js'' (FStr ''/src/a.js'')] \<and>
   settled (snd (forEach host0 touching
      [Fn ''touch'' 0, DoResolve 5 ''alpha'' ''/target/alpha.js'' (FStr ''/src/a.js'')]
      coord_valid)) = [(5, Rejected NotReady)] \<and>
   reads (snd (forEach host0 touching
      [Fn ''touch'' 0, DoResolve 5 ''alpha'' ''/target/alpha.js'' (FStr ''/src/a.js'')]
      coord_valid)) = [] \<and>
   compilationCallbacks (snd (forEach host0 touching
      [Fn ''touch'' 0, DoResolve 5 ''alpha'' ''/target/alpha.js'' (FStr ''/src/a.js'')]
      coord_valid)) = []"
proof -
  let ?mid = "invoke host0 touching (Fn ''touch'' 0) coord_valid"
  have m: "\<not> state ?mid" "map_of (settled ?mid) 5 = None"
    by (simp_all add: invoke_def touching_def invalidPlugin_def coord_valid_def coord0_def log_def)
  have v: "settled ?mid = []" "reads ?mid = []" "compilationCallbacks ?mid = []"
    "thrown ?mid = None"
    by (simp_all add: invoke_def touching_def invalidPlugin_def coord_valid_def coord0_def log_def)
  note th = not_ready_rejects [OF m, of host0 touching "''alpha''" "''/target/alpha.js''"
      "FStr ''/src/a.js''"]
  show ?thesis using th v by (simp add: Let_def)
qed

end
